theory Spec2Isabelle
  imports Complex_Main "HOL-Library.Multiset"
begin

section \<open>Data model of \<open>src/main.ts\<close>\<close>

text \<open>
  A Leaflet position \<open>{lat, lng}\<close>. JavaScript numbers are modelled as reals: the
  functions below only copy and compare coordinates.
\<close>

type_synonym latLng = "real \<times> real"

text \<open>
  \<open>ILeafletMarker\<close>: a marker of a rendered map. \<open>mk_leafletInstance\<close> is the
  position held by the Leaflet object (\<open>leafletInstance.getLatLng()\<close>),
  \<open>mk_tooltip\<close> whether a tooltip is bound to it. \<open>command\<close> and \<open>zoom\<close>
  may be undefined (\<open>None\<close>).
\<close>

record ILeafletMarker =
  mk_type :: string
  mk_id :: string
  mk_loc :: latLng
  mk_link :: string
  mk_layer :: string
  mk_mutable :: bool
  mk_command :: "bool option"
  mk_zoom :: "real option"
  mk_leafletInstance :: latLng
  mk_tooltip :: bool

text \<open>\<open>IMarkerData\<close>: the persisted shape of a marker.\<close>

record IMarkerData =
  md_type :: string
  md_id :: string
  md_loc :: latLng
  md_link :: string
  md_layer :: string
  md_command :: bool
  md_zoom :: real

text \<open>
  The Leaflet shape of an overlay: a \<open>Circle\<close> with its centre and colour option,
  or any other layer (\<open>instanceof Circle\<close> is false).
\<close>

datatype leafletShape = Circle latLng string | OtherShape

text \<open>
  \<open>IOverlayData\<close>, the argument of \<open>map.addOverlay\<close>. The layer is undefined
  when the block declares no layers, the description when a document entry has none.
\<close>

record IOverlayData =
  od_radius :: real
  od_loc :: latLng
  od_color :: string
  od_unit :: string
  od_layer :: "string option"
  od_desc :: "string option"
  od_id :: string

text \<open>An element of \<open>map.overlays\<close>.\<close>

record ILeafletOverlay =
  ov_leafletInstance :: leafletShape
  ov_layer :: "string option"
  ov_data :: IOverlayData
  ov_mutable :: bool
  ov_id :: string

text \<open>The persisted shape of an overlay, built in \<open>saveSettings\<close>.\<close>

record savedOverlay =
  so_radius :: real
  so_loc :: latLng
  so_color :: string
  so_layer :: "string option"
  so_unit :: string
  so_desc :: "string option"

text \<open>
  \<open>IMapMarkerData\<close>: one element of \<open>AppData.mapMarkers\<close>, the durable record of
  a map. \<open>id\<close> and \<open>lastAccessed\<close> may be absent (undefined). An element of
  \<open>overlays\<close> is undefined (\<open>None\<close>) when the callback of \<open>saveSettings\<close>
  returned nothing.
\<close>

record IMapMarkerData =
  r_id :: "string option"
  r_files :: "string list"
  r_lastAccessed :: "int option"
  r_markers :: "IMarkerData list"
  r_overlays :: "savedOverlay option list"

text \<open>
  \<open>LeafletMap\<close>: the fields of a rendered map that \<open>main.ts\<close> reads and writes.
  \<open>lm_contentEl\<close> is the identity of the DOM element, \<open>lm_mapLayers\<close> the ids
  of the layers of the map.
\<close>

record LeafletMap =
  lm_id :: string
  lm_contentEl :: nat
  lm_markers :: "ILeafletMarker list"
  lm_overlays :: "ILeafletOverlay list"
  lm_mapLayers :: "string list"

text \<open>\<open>IMapInterface\<close>: an element of \<open>this.maps\<close>.\<close>

record IMapInterface =
  mi_map :: LeafletMap
  mi_source :: string
  mi_el :: nat
  mi_id :: string

text \<open>An element of \<open>this.mapFiles\<close>.\<close>

record mapFile =
  mf_file :: string
  mf_maps :: "string list"

text \<open>The fields of the plugin object that the save cycle and the event handlers use.\<close>

record plugin =
  mapMarkers :: "IMapMarkerData list"
  maps :: "IMapInterface list"
  mapFiles :: "mapFile list"

section \<open>\<open>saveSettings\<close>\<close>

text \<open>JavaScript truthiness of an optional string: \<open>!id\<close> holds for undefined and \<open>""\<close>.\<close>

definition falsy :: "string option \<Rightarrow> bool" where
  "falsy s = (case s of None \<Rightarrow> True | Some v \<Rightarrow> v = [])"

text \<open>The callback mapping a mutable marker to \<open>IMarkerData\<close> (lines 656-666).\<close>

definition toMarkerData :: "ILeafletMarker \<Rightarrow> IMarkerData" where
  "toMarkerData marker =
     \<lparr> md_type = mk_type marker,
       md_id = mk_id marker,
       md_loc = mk_loc marker,
       md_link = mk_link marker,
       md_layer = mk_layer marker,
       md_command = (case mk_command marker of None \<Rightarrow> False | Some c \<Rightarrow> c),
       md_zoom = (case mk_zoom marker of None \<Rightarrow> 0 | Some z \<Rightarrow> z) \<rparr>"

text \<open>
  The callback mapping a mutable overlay (lines 669-683): it returns a value only when
  the Leaflet object is a \<open>Circle\<close>.
\<close>

definition toSavedOverlay :: "ILeafletOverlay \<Rightarrow> savedOverlay option" where
  "toSavedOverlay overlay =
     (case ov_leafletInstance overlay of
        Circle pos color \<Rightarrow>
          Some \<lparr> so_radius = od_radius (ov_data overlay),
                 so_loc = pos,
                 so_color = color,
                 so_layer = ov_layer overlay,
                 so_unit = od_unit (ov_data overlay),
                 so_desc = od_desc (ov_data overlay) \<rparr>
      | OtherShape \<Rightarrow> None)"

text \<open>
  The record pushed for one element of \<open>this.maps\<close> (lines 648-684). \<open>now\<close> is the
  value of \<open>Date.now()\<close>, in milliseconds.
\<close>

definition freshRecord :: "int \<Rightarrow> mapFile list \<Rightarrow> IMapInterface \<Rightarrow> IMapMarkerData" where
  "freshRecord now mfs m =
     \<lparr> r_id = Some (mi_id m),
       r_files = map mf_file (filter (\<lambda>f. mi_id m \<in> set (mf_maps f)) mfs),
       r_lastAccessed = Some now,
       r_markers = map toMarkerData (filter mk_mutable (lm_markers (mi_map m))),
       r_overlays = map toSavedOverlay (filter ov_mutable (lm_overlays (mi_map m))) \<rparr>"

text \<open>
  One iteration of \<open>this.maps.forEach\<close> (lines 643-685): filter out the records with
  the id of the map, then push the fresh record.
\<close>

definition mergeMap :: "int \<Rightarrow> mapFile list \<Rightarrow> IMapMarkerData list \<Rightarrow> IMapInterface
    \<Rightarrow> IMapMarkerData list" where
  "mergeMap now mfs store m =
     filter (\<lambda>r. r_id r \<noteq> Some (mi_id m)) store @ [freshRecord now mfs m]"

definition mergeMaps :: "int \<Rightarrow> mapFile list \<Rightarrow> IMapMarkerData list \<Rightarrow> IMapInterface list
    \<Rightarrow> IMapMarkerData list" where
  "mergeMaps now mfs store ms = foldl (mergeMap now mfs) store ms"

text \<open>Lines 688-690: only maps with marker or overlay data are saved.\<close>

definition hasData :: "IMapMarkerData \<Rightarrow> bool" where
  "hasData r = (length (r_markers r) > 0 \<or> length (r_overlays r) > 0)"

text \<open>
  Lines 693-696: the predicate of the last filter,
  \<open>!id || files.length || Date.now() - lastAccessed <= 6.048e8\<close>, where an undefined
  \<open>lastAccessed\<close> defaults to \<open>Date.now()\<close>. The times are integers (milliseconds).
\<close>

definition gcKeep :: "int \<Rightarrow> IMapMarkerData \<Rightarrow> bool" where
  "gcKeep now r =
     (let lastAccessed = (case r_lastAccessed r of None \<Rightarrow> now | Some t \<Rightarrow> t)
      in falsy (r_id r) \<or> length (r_files r) \<noteq> 0 \<or> now - lastAccessed \<le> 604800000)"

text \<open>
  \<open>saveSettings\<close>, as far as \<open>AppData.mapMarkers\<close> goes: the merge of the active maps,
  then the two filters. One save cycle reads the clock as \<open>now\<close>. The marker icons
  recomputed afterwards (lines 700-704) do not touch the store.
\<close>

definition saveSettings :: "int \<Rightarrow> plugin \<Rightarrow> plugin" where
  "saveSettings now p =
     p\<lparr> mapMarkers :=
          filter (gcKeep now)
            (filter hasData (mergeMaps now (mapFiles p) (mapMarkers p) (maps p))) \<rparr>"

text \<open>The records that reach the last filter of a save cycle.\<close>

definition beforeGc :: "int \<Rightarrow> plugin \<Rightarrow> IMapMarkerData list" where
  "beforeGc now p = filter hasData (mergeMaps now (mapFiles p) (mapMarkers p) (maps p))"


section \<open>Events of a map: \<open>registerMapEvents\<close>\<close>

text \<open>
  The filter of the broadcasts (lines 783-786, 797-800): the views registered under the
  id of the originating map whose map has another content element.
\<close>

definition isSibling :: "LeafletMap \<Rightarrow> IMapInterface \<Rightarrow> bool" where
  "isSibling origin v = (mi_id v = lm_id origin \<and> lm_contentEl (mi_map v) \<noteq> lm_contentEl origin)"

text \<open>
  Modelled from the spec: \<open>LeafletMap.addMarker\<close> is not in \<open>main.ts\<close>. The spec
  (4.4, marker added): each sibling creates a corresponding marker with identical
  id/location/type, with its own tooltip suppressed. The marker is appended to the
  markers of the map.
\<close>

definition addMarker :: "ILeafletMarker \<Rightarrow> LeafletMap \<Rightarrow> LeafletMap" where
  "addMarker marker m = m\<lparr> lm_markers := lm_markers m @ [marker\<lparr> mk_tooltip := False \<rparr>] \<rparr>"

text \<open>
  The handler of \<open>marker-added\<close> (lines 779-791): close and unbind the tooltip of the
  marker, call \<open>addMarker\<close> on the map of every sibling view, then save. The marker
  object is passed by value, so the handler returns it with the new state.
\<close>

definition markerAdded :: "int \<Rightarrow> LeafletMap \<Rightarrow> ILeafletMarker \<Rightarrow> plugin
    \<Rightarrow> ILeafletMarker \<times> plugin" where
  "markerAdded now origin marker p =
     (let marker' = marker\<lparr> mk_tooltip := False \<rparr>;
          views = map (\<lambda>v. if isSibling origin v
                             then v\<lparr> mi_map := addMarker marker' (mi_map v) \<rparr> else v) (maps p)
      in (marker', saveSettings now (p\<lparr> maps := views \<rparr>)))"

text \<open>
  Lines 802-810 on the markers of one sibling: \<open>find\<close> the first marker with the id;
  if there is none, return; else set the position of its Leaflet object and its
  \<open>loc\<close>.
\<close>

fun moveExisting :: "ILeafletMarker \<Rightarrow> ILeafletMarker list \<Rightarrow> ILeafletMarker list" where
  "moveExisting marker [] = []"
| "moveExisting marker (m # ms) =
     (if mk_id m = mk_id marker
      then m\<lparr> mk_leafletInstance := mk_leafletInstance marker, mk_loc := mk_loc marker \<rparr> # ms
      else m # moveExisting marker ms)"

text \<open>The handler of \<open>marker-dragging\<close> (lines 795-812).\<close>

definition markerDragging :: "LeafletMap \<Rightarrow> ILeafletMarker \<Rightarrow> plugin \<Rightarrow> plugin" where
  "markerDragging origin marker p =
     p\<lparr> maps :=
          map (\<lambda>otherMap. if isSibling origin otherMap
                 then otherMap\<lparr> mi_map := (mi_map otherMap)
                        \<lparr> lm_markers := moveExisting marker (lm_markers (mi_map otherMap)) \<rparr> \<rparr>
                 else otherMap) (maps p) \<rparr>"

section \<open>The centre of the map: \<open>_getCoordinates\<close>\<close>

text \<open>
  The value of \<open>latitude\<close> or \<open>longitude\<close> when the centre is computed: a string
  (block parameter, default setting), a number (the \<open>location\<close> of a note), or undefined.
\<close>

datatype jsValue = Undefined | Str string | Num real

text \<open>\<open>!v\<close> on such a value.\<close>

definition falsyValue :: "jsValue \<Rightarrow> bool" where
  "falsyValue v = (case v of Undefined \<Rightarrow> True | Str s \<Rightarrow> s = [] | Num n \<Rightarrow> n = 0)"

datatype mapType = Real | Image

text \<open>
  \<open>Number(`${v}`?.split("%").shift())\<close> (lines 595-596). \<open>toNumber\<close> stands for
  JavaScript's \<open>Number\<close> on strings, \<open>None\<close> for \<open>NaN\<close>; it is a parameter of the
  model. The text of a number converts back to that number; the text of undefined is
  \<open>"undefined"\<close>; of a string, the part before the first \<open>%\<close> is converted.
\<close>

definition coordinate :: "(string \<Rightarrow> real option) \<Rightarrow> jsValue \<Rightarrow> real option" where
  "coordinate toNumber v =
     (case v of
        Undefined \<Rightarrow> toNumber ''undefined''
      | Str s \<Rightarrow> toNumber (takeWhile (\<lambda>c. c \<noteq> CHR ''%'') s)
      | Num n \<Rightarrow> Some n)"

definition coordinateWarning :: string where
  "coordinateWarning =
     ''There was an error with the provided latitude and longitude. Using defaults.''"

text \<open>
  Lines 592-623 of \<open>_getCoordinates\<close>, from the resolved \<open>latitude\<close> and
  \<open>longitude\<close> on: the notices raised and \<open>coords\<close>. The conversion to text in
  the \<open>try\<close> block cannot throw on these values, so \<open>err\<close> stays false.
  \<open>appLat\<close> and \<open>appLong\<close> are \<open>AppData.lat\<close> and \<open>AppData.long\<close>.
\<close>

definition getCoordinates :: "(string \<Rightarrow> real option) \<Rightarrow> mapType \<Rightarrow> real \<Rightarrow> real
    \<Rightarrow> jsValue \<Rightarrow> jsValue \<Rightarrow> string list \<times> latLng" where
  "getCoordinates toNumber type appLat appLong latitude longitude =
     (let c0 = coordinate toNumber latitude;
          c1 = coordinate toNumber longitude;
          notices = (if c0 = None \<or> c1 = None then [coordinateWarning] else []);
          d0 = (if type \<noteq> Real then 50 else appLat);
          d1 = (if type \<noteq> Real then 50 else appLong);
          r0 = (case c0 of None \<Rightarrow> d0 | Some x \<Rightarrow> if falsyValue latitude then d0 else x);
          r1 = (case c1 of None \<Rightarrow> d1 | Some y \<Rightarrow> if falsyValue longitude then d1 else y)
      in (notices, (r0, r1)))"

section \<open>Overlays of a block: \<open>postprocessor\<close>, lines 241-282\<close>

text \<open>
  An overlay tuple \<open>[color, loc, length, desc, id]\<close> as destructured at line 249: the
  id is the declared one, or the one \<open>getId()\<close> gave.
\<close>

record rawOverlay =
  ro_color :: string
  ro_loc :: latLng
  ro_length :: string
  ro_desc :: string
  ro_id :: string

text \<open>An element of \<open>overlayArray\<close>: \<open>[color, loc, radius, unit, desc, id]\<close>.\<close>

record parsedOverlay =
  po_color :: string
  po_loc :: latLng
  po_radius :: real
  po_unit :: string
  po_desc :: string
  po_id :: string

datatype jsError = Error string

text \<open>
  The result of \<open>length.match(OVERLAY_TAG_REGEX)\<close>: no match, or the two groups, each of
  which may be undefined. The pattern is declared outside \<open>main.ts\<close>; the matcher
  \<open>rx\<close> is a parameter of the model.
\<close>

type_synonym tagMatch = "string \<Rightarrow> (string option \<times> string option) option"

definition radiusMessage :: string where
  "radiusMessage =
     ''Could not parse overlay radius. Please make sure it is in the format `<length> <unit>`.''"

text \<open>Line 251: \<open>!match || isNaN(Number(match[1]))\<close>; \<open>Number(undefined)\<close> is \<open>NaN\<close>.\<close>

definition badRadius :: "tagMatch \<Rightarrow> (string \<Rightarrow> real option) \<Rightarrow> string \<Rightarrow> bool" where
  "badRadius rx toNumber len =
     (case rx len of
        None \<Rightarrow> True
      | Some (g1, g2) \<Rightarrow> (case g1 of None \<Rightarrow> True | Some radius \<Rightarrow> toNumber radius = None))"

text \<open>The callback of lines 249-258 on one tuple.\<close>

definition parseOverlay :: "tagMatch \<Rightarrow> (string \<Rightarrow> real option) \<Rightarrow> rawOverlay
    \<Rightarrow> jsError + parsedOverlay" where
  "parseOverlay rx toNumber raw =
     (if badRadius rx toNumber (ro_length raw) then Inl (Error radiusMessage)
      else case rx (ro_length raw) of
             Some (Some radius, g2) \<Rightarrow>
               (case toNumber radius of
                  Some n \<Rightarrow>
                    Inr \<lparr> po_color = ro_color raw, po_loc = ro_loc raw, po_radius = n,
                          po_unit = (case g2 of None \<Rightarrow> ''m'' | Some u \<Rightarrow> u),
                          po_desc = ro_desc raw, po_id = ro_id raw \<rparr>
                | None \<Rightarrow> Inl (Error radiusMessage))
           | _ \<Rightarrow> Inl (Error radiusMessage))"

text \<open>\<open>Array.prototype.map\<close> with a callback that may throw: the first throw ends it.\<close>

fun parseOverlays :: "tagMatch \<Rightarrow> (string \<Rightarrow> real option) \<Rightarrow> rawOverlay list
    \<Rightarrow> jsError + parsedOverlay list" where
  "parseOverlays rx toNumber [] = Inr []"
| "parseOverlays rx toNumber (raw # raws) =
     (case parseOverlay rx toNumber raw of
        Inl e \<Rightarrow> Inl e
      | Inr x \<Rightarrow> (case parseOverlays rx toNumber raws of
                    Inl e \<Rightarrow> Inl e
                  | Inr xs \<Rightarrow> Inr (x # xs)))"

text \<open>
  \<open>Array.prototype.sort\<close> with a comparator that may throw: a stable sort that puts
  \<open>a\<close> before \<open>b\<close> when \<open>cmp a b\<close> is negative, written as insertion from the
  right; the first throw of the comparator ends the sort. A list of fewer than two
  elements is returned without a call of the comparator; in a longer list every element
  is compared at least once, so the sort throws when a comparison of any element
  does (which one throws first is the engine's choice of comparisons).
\<close>

fun sortInsert :: "('a \<Rightarrow> 'a \<Rightarrow> jsError + real) \<Rightarrow> 'a \<Rightarrow> 'a list \<Rightarrow> jsError + 'a list" where
  "sortInsert cmp a [] = Inr [a]"
| "sortInsert cmp a (b # bs) =
     (case cmp a b of
        Inl e \<Rightarrow> Inl e
      | Inr c \<Rightarrow>
          if c \<le> 0 then Inr (a # b # bs)
          else (case sortInsert cmp a bs of
                  Inl e \<Rightarrow> Inl e
                | Inr cs \<Rightarrow> Inr (b # cs)))"

fun jsSort :: "('a \<Rightarrow> 'a \<Rightarrow> jsError + real) \<Rightarrow> 'a list \<Rightarrow> jsError + 'a list" where
  "jsSort cmp [] = Inr []"
| "jsSort cmp (x # xs) =
     (case jsSort cmp xs of
        Inl e \<Rightarrow> Inl e
      | Inr ys \<Rightarrow> sortInsert cmp x ys)"

text \<open>
  \<open>convert(radius).from(unit).to("m")\<close>: the library \<open>convert\<close> is a parameter
  \<open>toMeters\<close> of the model, a function of the magnitude and the unit. The cast of the
  unit to \<open>Length\<close> checks nothing when the code runs: on a unit the library does not
  know the conversion throws, which is the value \<open>Inl\<close> with the error of the library.
\<close>

type_synonym conversion = "real \<Rightarrow> string \<Rightarrow> jsError + real"

definition meters :: "conversion \<Rightarrow> parsedOverlay \<Rightarrow> jsError + real" where
  "meters toMeters a = toMeters (po_radius a) (po_unit a)"

text \<open>
  The comparator of lines 260-268: \<open>radiusA\<close> is converted first, then \<open>radiusB\<close>;
  the result is \<open>radiusB - radiusA\<close>.
\<close>

definition compareRadius :: "conversion \<Rightarrow> parsedOverlay \<Rightarrow> parsedOverlay \<Rightarrow> jsError + real" where
  "compareRadius toMeters a b =
     (case meters toMeters a of
        Inl e \<Rightarrow> Inl e
      | Inr radiusA \<Rightarrow>
          (case meters toMeters b of
             Inl e \<Rightarrow> Inl e
           | Inr radiusB \<Rightarrow> Inr (radiusB - radiusA)))"

text \<open>The argument of \<open>map.addOverlay\<close> at lines 270-281; \<open>layer0\<close> is \<open>layers[0]\<close>.\<close>

definition overlayData :: "string option \<Rightarrow> parsedOverlay \<Rightarrow> IOverlayData" where
  "overlayData layer0 a =
     \<lparr> od_radius = po_radius a, od_loc = po_loc a, od_color = po_color a, od_unit = po_unit a,
       od_layer = layer0, od_desc = Some (po_desc a), od_id = po_id a \<rparr>"

text \<open>
  Lines 241-282: the calls of \<open>map.addOverlay\<close> the block makes, in order, or the error
  thrown while the tuples are parsed or sorted; after an error no call is made.
\<close>

definition overlayCalls :: "tagMatch \<Rightarrow> (string \<Rightarrow> real option) \<Rightarrow> conversion
    \<Rightarrow> string option \<Rightarrow> rawOverlay list \<Rightarrow> jsError + IOverlayData list" where
  "overlayCalls rx toNumber toMeters layer0 raws =
     (case parseOverlays rx toNumber raws of
        Inl e \<Rightarrow> Inl e
      | Inr overlayArray \<Rightarrow>
          (case jsSort (compareRadius toMeters) overlayArray of
             Inl e \<Rightarrow> Inl e
           | Inr ordered \<Rightarrow> Inr (map (overlayData layer0) ordered)))"

text \<open>
  The order of two elements of the sorted \<open>overlayArray\<close>: both radii convert to
  metres, and the radius of the later element is not the larger one.
\<close>

definition radiusBefore :: "conversion \<Rightarrow> parsedOverlay \<Rightarrow> parsedOverlay \<Rightarrow> bool" where
  "radiusBefore toMeters a b =
     (case meters toMeters a of
        Inl e \<Rightarrow> False
      | Inr radiusA \<Rightarrow>
          (case meters toMeters b of
             Inl e \<Rightarrow> False
           | Inr radiusB \<Rightarrow> radiusB \<le> radiusA))"

text \<open>
  The order of two calls of \<open>map.addOverlay\<close>: both radii convert to metres, and the
  radius of the later call is not the larger one.
\<close>

definition largerFirst :: "conversion \<Rightarrow> IOverlayData \<Rightarrow> IOverlayData \<Rightarrow> bool" where
  "largerFirst toMeters a b =
     (case toMeters (od_radius a) (od_unit a) of
        Inl e \<Rightarrow> False
      | Inr radiusA \<Rightarrow>
          (case toMeters (od_radius b) (od_unit b) of
             Inl e \<Rightarrow> False
           | Inr radiusB \<Rightarrow> radiusB \<le> radiusA))"

section \<open>Rendering a block: \<open>postprocessor\<close>\<close>

text \<open>
  The block parameters read here, after the defaults of lines 127-148, and what the
  collaborators returned for this block: the overlays of \<open>getImmutableItems\<close>, the
  \<open>latitude\<close> and \<open>longitude\<close> that \<open>_getCoordinates\<close> resolved, and the data
  \<open>toDataURL\<close> found for a layer (undefined when there is none).
\<close>

record blockParams =
  p_id :: "string option"
  p_image :: string
  p_layers :: "string list"
  p_overlay :: "rawOverlay list"
  p_immutableOverlays :: "rawOverlay list"
  p_latitude :: jsValue
  p_longitude :: jsValue
  p_layerData :: "string \<Rightarrow> string option"

text \<open>
  Modelled from the spec: \<open>renderError\<close> is not in \<open>main.ts\<close>. The spec (7): fatal
  errors replace the map's rendered region with a visible error message containing the
  failure reason. So after the call the block element shows either the rendered map
  (\<open>map.render\<close> was reached), with the overlays added to it in order and its
  centre, or the message given to \<open>renderError\<close>.
\<close>

datatype region = Rendered "IOverlayData list" latLng | ErrorShown string

record outcome =
  out_notices :: "string list"
  out_el :: region

text \<open>
  The body of the \<open>try\<close> block (lines 125-528), as far as the outcome of the render
  goes: the notices raised so far, and the error thrown or the rendered map. The calls
  that only build or store state (the migration of old records, the markers, the file
  watchers, \<open>loadData\<close>, the registry and the save) are taken to return.
\<close>

definition renderBlock :: "tagMatch \<Rightarrow> (string \<Rightarrow> real option) \<Rightarrow> conversion
    \<Rightarrow> real \<Rightarrow> real \<Rightarrow> blockParams \<Rightarrow> string list \<times> (jsError + region)" where
  "renderBlock rx toNumber toMeters appLat appLong params =
     (if falsy (p_id params)
      then ([''As of version 3.0.0, Obsidian Leaflet maps must have an ID.'',
             ''All marker data associated with this map will sync to the new ID.''],
            Inl (Error ''ID required''))
      else case overlayCalls rx toNumber toMeters
                  (case p_layers params of [] \<Rightarrow> None | l # ls \<Rightarrow> Some l)
                  (p_overlay params @ p_immutableOverlays params) of
             Inl e \<Rightarrow> ([], Inl e)
           | Inr calls \<Rightarrow>
               (let (notices, coords) =
                      getCoordinates toNumber (if p_image params \<noteq> ''real'' then Image else Real)
                        appLat appLong (p_latitude params) (p_longitude params)
                in if p_image params \<noteq> ''real''
                      \<and> filter (\<lambda>l. falsy (p_layerData params l)) (p_layers params) \<noteq> []
                   then (notices, Inl (Error ''No valid layers were provided to the image map.''))
                   else (notices, Inr (Rendered calls coords))))"

text \<open>
  \<open>postprocessor\<close>: the \<open>catch\<close> block (lines 529-533) raises a notice and shows the
  message of the error in the block element.
\<close>

definition postprocessor :: "tagMatch \<Rightarrow> (string \<Rightarrow> real option) \<Rightarrow> conversion
    \<Rightarrow> real \<Rightarrow> real \<Rightarrow> blockParams \<Rightarrow> outcome" where
  "postprocessor rx toNumber toMeters appLat appLong params =
     (case renderBlock rx toNumber toMeters appLat appLong params of
        (notices, Inl (Error message)) \<Rightarrow>
          \<lparr> out_notices = notices @ [''There was an error loading the map.''],
            out_el = ErrorShown message \<rparr>
      | (notices, Inr shown) \<Rightarrow> \<lparr> out_notices = notices, out_el = shown \<rparr>)"

section \<open>Overlays of a bound document: the handler of \<open>changed\<close>\<close>

text \<open>
  Modelled from the spec: \<open>LeafletMap.addOverlay\<close> is not in \<open>main.ts\<close>. The spec
  (4.3): \<open>addOverlay(spec, mutable)\<close> validates via 4.2, inserts maintaining the
  descending-radius order, emits no notification itself. The syntax of the radius (4.2) is
  checked by the callers in \<open>main.ts\<close> before the call; the overlay, a circle, is put
  before the first overlay whose radius in metres is smaller. A unit that does not
  convert is taken as metres (4.1: callers must fall back to a default unit, meters).
\<close>

definition leafletOverlay :: "IOverlayData \<Rightarrow> bool \<Rightarrow> ILeafletOverlay" where
  "leafletOverlay spec mutable =
     \<lparr> ov_leafletInstance = Circle (od_loc spec) (od_color spec), ov_layer = od_layer spec,
       ov_data = spec, ov_mutable = mutable, ov_id = od_id spec \<rparr>"

definition radiusInMeters :: "conversion \<Rightarrow> IOverlayData \<Rightarrow> real" where
  "radiusInMeters toMeters spec =
     (case toMeters (od_radius spec) (od_unit spec) of Inl e \<Rightarrow> od_radius spec | Inr r \<Rightarrow> r)"

fun insertOverlay :: "conversion \<Rightarrow> ILeafletOverlay \<Rightarrow> ILeafletOverlay list
    \<Rightarrow> ILeafletOverlay list" where
  "insertOverlay toMeters a [] = [a]"
| "insertOverlay toMeters a (b # bs) =
     (if radiusInMeters toMeters (ov_data b) < radiusInMeters toMeters (ov_data a)
      then a # b # bs else b # insertOverlay toMeters a bs)"

definition addOverlay :: "conversion \<Rightarrow> IOverlayData \<Rightarrow> bool \<Rightarrow> LeafletMap
    \<Rightarrow> LeafletMap" where
  "addOverlay toMeters spec mutable m =
     m\<lparr> lm_overlays := insertOverlay toMeters (leafletOverlay spec mutable) (lm_overlays m) \<rparr>"

text \<open>
  An element \<open>[color, loc, length, desc]\<close> of the \<open>mapoverlay\<close> field of a
  document; each component may be undefined.
\<close>

record overlayEntry =
  fe_color :: "string option"
  fe_loc :: "latLng option"
  fe_length :: "string option"
  fe_desc :: "string option"

text \<open>
  What \<open>getFileCache\<close> gives the handler: no cache or no frontmatter, or the
  frontmatter with its \<open>mapoverlay\<close> field (undefined when the document declares none).
\<close>

datatype fileCache = NoFrontmatter | Frontmatter "overlayEntry list option"

text \<open>
  Lines 366-368: the radius and the unit of a length, or \<open>None\<close> when the handler
  skips the entry (\<open>!radius || isNaN(Number(radius))\<close>).
\<close>

definition entryRadius :: "tagMatch \<Rightarrow> (string \<Rightarrow> real option) \<Rightarrow> string \<Rightarrow> (real \<times> string) option" where
  "entryRadius rx toNumber len =
     (case rx len of
        None \<Rightarrow> None
      | Some (g1, g2) \<Rightarrow>
          (case g1 of
             None \<Rightarrow> None
           | Some radius \<Rightarrow>
               if radius = [] then None
               else (case toNumber radius of
                       None \<Rightarrow> None
                     | Some n \<Rightarrow> Some (n, case g2 of None \<Rightarrow> ''m'' | Some u \<Rightarrow> u))))"

definition entryLength :: "overlayEntry \<Rightarrow> string" where
  "entryLength e = (case fe_length e of None \<Rightarrow> ''1 m'' | Some l \<Rightarrow> l)"

text \<open>The argument of \<open>map.addOverlay\<close> at lines 374-385.\<close>

definition entryData :: "string \<Rightarrow> string \<Rightarrow> string \<Rightarrow> overlayEntry \<Rightarrow> real \<times> string \<Rightarrow> IOverlayData" where
  "entryData overlayColor fileId layer e ru =
     \<lparr> od_radius = fst ru,
       od_loc = (case fe_loc e of None \<Rightarrow> (0, 0) | Some l \<Rightarrow> l),
       od_color = (case fe_color e of None \<Rightarrow> overlayColor | Some c \<Rightarrow> c),
       od_unit = snd ru, od_layer = Some layer, od_desc = fe_desc e, od_id = fileId \<rparr>"

definition lengthNotice :: "string \<Rightarrow> string" where
  "lengthNotice fileName =
     ''Could not parse map overlay length in '' @ fileName
       @ ''. Please ensure it is in the format: <distance> <unit>''"

definition overlaysNotice :: "string \<Rightarrow> string" where
  "overlaysNotice fileName = ''There was an error updating the overlays for '' @ fileName @ ''.''"

text \<open>
  The \<open>forEach\<close> of lines 354-387 inside the \<open>try\<close> of line 344: an entry whose
  length does not parse raises a notice and is skipped; \<open>map.mapLayers[0].id\<close> on a
  map without layers throws, which ends the loop in the \<open>catch\<close> of line 388.
\<close>

fun addEntries :: "tagMatch \<Rightarrow> (string \<Rightarrow> real option) \<Rightarrow> conversion \<Rightarrow> string
    \<Rightarrow> string \<Rightarrow> string \<Rightarrow> overlayEntry list \<Rightarrow> string list \<times> LeafletMap
    \<Rightarrow> string list \<times> LeafletMap" where
  "addEntries rx toNumber toMeters overlayColor fileName fileId [] (notices, m) = (notices, m)"
| "addEntries rx toNumber toMeters overlayColor fileName fileId (e # es) (notices, m) =
     (case entryRadius rx toNumber (entryLength e) of
        None \<Rightarrow>
          addEntries rx toNumber toMeters overlayColor fileName fileId es
            (notices @ [lengthNotice fileName], m)
      | Some ru \<Rightarrow>
          (case lm_mapLayers m of
             [] \<Rightarrow> (notices @ [overlaysNotice fileName], m)
           | layer # layers \<Rightarrow>
               addEntries rx toNumber toMeters overlayColor fileName fileId es
                 (notices, addOverlay toMeters (entryData overlayColor fileId layer e ru) False m)))"

text \<open>
  The handler of \<open>changed\<close> (lines 287-393), as far as the overlays go. \<open>fileId\<close> is
  \<open>watchers.get(file)\<close>, \<open>None\<close> when the file is not a bound document. The updates
  of the bound marker (lines 296-342) sit in \<open>try\<close> blocks of their own and do not
  touch the overlays.
\<close>

definition changed :: "tagMatch \<Rightarrow> (string \<Rightarrow> real option) \<Rightarrow> conversion \<Rightarrow> string
    \<Rightarrow> string \<Rightarrow> string option \<Rightarrow> fileCache \<Rightarrow> LeafletMap \<Rightarrow> string list \<times> LeafletMap" where
  "changed rx toNumber toMeters overlayColor fileName fileId cache m =
     (case fileId of
        None \<Rightarrow> ([], m)
      | Some i \<Rightarrow>
          (case cache of
             NoFrontmatter \<Rightarrow> ([], m)
           | Frontmatter mapoverlay \<Rightarrow>
               (let removed = m\<lparr> lm_overlays := filter (\<lambda>overlay. ov_id overlay \<noteq> i) (lm_overlays m) \<rparr>
                in case mapoverlay of
                     None \<Rightarrow> ([], removed)
                   | Some entries \<Rightarrow>
                       addEntries rx toNumber toMeters overlayColor fileName i entries
                         ([], removed))))"

text \<open>The declarations of a document that the handler inserts, with what it inserts.\<close>

definition inserted :: "tagMatch \<Rightarrow> (string \<Rightarrow> real option) \<Rightarrow> string \<Rightarrow> string \<Rightarrow> string
    \<Rightarrow> overlayEntry list \<Rightarrow> ILeafletOverlay list" where
  "inserted rx toNumber overlayColor fileId layer entries =
     List.map_filter
       (\<lambda>e. map_option (\<lambda>ru. leafletOverlay (entryData overlayColor fileId layer e ru) False)
              (entryRadius rx toNumber (entryLength e)))
       entries"

section \<open>Sample data\<close>

definition day :: int where
  "day = 86400000"

definition sampleNow :: int where
  "sampleNow = 1700000000000"

definition pin :: IMarkerData where
  "pin = \<lparr> md_type = ''default'', md_id = ''ID_1'', md_loc = (10, 20), md_link = ''Note'',
           md_layer = ''real'', md_command = False, md_zoom = 0 \<rparr>"

text \<open>A stored record with one marker, last accessed \<open>age\<close> milliseconds before \<open>sampleNow\<close>.\<close>

definition stored :: "string option \<Rightarrow> string list \<Rightarrow> int \<Rightarrow> IMapMarkerData" where
  "stored i fs age =
     \<lparr> r_id = i, r_files = fs, r_lastAccessed = Some (sampleNow - age),
       r_markers = [pin], r_overlays = [] \<rparr>"

text \<open>A store with no active map: three records with an id, one without.\<close>

definition idleStore :: plugin where
  "idleStore =
     \<lparr> mapMarkers =
         [stored (Some ''a'') [] (8 * day),
          stored (Some ''b'') [] (6 * day),
          stored (Some ''c'') [''Notes/World.md''] (30 * day),
          stored None [] (30 * day)],
       maps = [], mapFiles = [] \<rparr>"

text \<open>A marker placed by the user.\<close>

definition userMarker :: "string \<Rightarrow> latLng \<Rightarrow> ILeafletMarker" where
  "userMarker i pos =
     \<lparr> mk_type = ''default'', mk_id = i, mk_loc = pos, mk_link = ''Note'', mk_layer = ''real'',
       mk_mutable = True, mk_command = None, mk_zoom = None, mk_leafletInstance = pos,
       mk_tooltip = True \<rparr>"

text \<open>A rendered view of the map \<open>i\<close> in the block element \<open>el\<close>, with content element \<open>c\<close>.\<close>

definition view :: "nat \<Rightarrow> nat \<Rightarrow> string \<Rightarrow> ILeafletMarker list \<Rightarrow> IMapInterface" where
  "view el c i ms =
     \<lparr> mi_map = \<lparr> lm_id = i, lm_contentEl = c, lm_markers = ms, lm_overlays = [],
                  lm_mapLayers = [''real''] \<rparr>,
       mi_source = ''id: '' @ i, mi_el = el, mi_id = i \<rparr>"

text \<open>Two views of the map \<open>world\<close>, one view of \<open>city\<close>, and an older record of \<open>world\<close>.\<close>

definition threeViews :: plugin where
  "threeViews =
     \<lparr> mapMarkers = [stored (Some ''world'') [''Old.md''] (2 * day)],
       maps =
         [view 1 11 ''world'' [userMarker ''ID_1'' (1, 2)],
          view 2 12 ''city'' [userMarker ''ID_7'' (5, 5)],
          view 3 13 ''world'' [userMarker ''ID_1'' (1, 2), userMarker ''ID_2'' (3, 4)]],
       mapFiles = [\<lparr> mf_file = ''Notes/World.md'', mf_maps = [''world'', ''city''] \<rparr>] \<rparr>"

text \<open>
  A stand-in for JavaScript's \<open>Number\<close> on the sample strings: it is \<open>Number\<close> on the
  empty string (0), on strings of decimal digits, and on strings that begin with a
  letter other than \<open>I\<close> (\<open>NaN\<close>).
\<close>

definition isDigit :: "char \<Rightarrow> bool" where
  "isDigit c = (c \<in> set ''0123456789'')"

definition digitsValue :: "string \<Rightarrow> nat" where
  "digitsValue s = foldl (\<lambda>n c. 10 * n + (of_char c - 48)) 0 s"

definition decimalNumber :: "string \<Rightarrow> real option" where
  "decimalNumber s =
     (if s = [] then Some 0
      else if list_all isDigit s then Some (real (digitsValue s))
      else None)"

text \<open>
  Modelled from the spec: \<open>OVERLAY_TAG_REGEX\<close> is declared outside \<open>main.ts\<close>. The
  spec (4.2): the radius is a string of the form \<open><number><whitespace><unit>\<close>, parsed
  via a fixed pattern capturing a numeric magnitude and an optional unit. This matcher
  takes a non-empty run of digits, then spaces, and the rest as the unit.
\<close>

definition tagPattern :: tagMatch where
  "tagPattern s =
     (let digits = takeWhile isDigit s;
          unit = dropWhile (\<lambda>c. c = CHR '' '') (dropWhile isDigit s)
      in if digits = [] then None
         else Some (Some digits, if unit = [] then None else Some unit))"

text \<open>
  A stand-in for \<open>convert\<close>: it knows metres and kilometres and throws on any other
  unit (the text of the error is the library's; a fixed one stands for it).
\<close>

definition metric :: conversion where
  "metric r u =
     (if u = ''m'' then Inr r
      else if u = ''km'' then Inr (1000 * r)
      else Inl (Error ''invalid unit''))"

definition circleSpec :: "string \<Rightarrow> string \<Rightarrow> rawOverlay" where
  "circleSpec i len =
     \<lparr> ro_color = ''blue'', ro_loc = (0, 0), ro_length = len, ro_desc = ''area'', ro_id = i \<rparr>"

definition circleData :: "string \<Rightarrow> real \<Rightarrow> string \<Rightarrow> IOverlayData" where
  "circleData i r u =
     \<lparr> od_radius = r, od_loc = (0, 0), od_color = ''blue'', od_unit = u, od_layer = None,
       od_desc = Some ''area'', od_id = i \<rparr>"

text \<open>A block of a geographic map with the given id, overlays and centre.\<close>

definition block :: "string option \<Rightarrow> rawOverlay list \<Rightarrow> jsValue \<Rightarrow> jsValue \<Rightarrow> blockParams" where
  "block i overlays lat long =
     \<lparr> p_id = i, p_image = ''real'', p_layers = [], p_overlay = overlays,
       p_immutableOverlays = [], p_latitude = lat, p_longitude = long,
       p_layerData = (\<lambda>l. None) \<rparr>"

text \<open>A map of \<open>world\<close> with one layer and one circle drawn by the user.\<close>

definition worldMap :: LeafletMap where
  "worldMap =
     \<lparr> lm_id = ''world'', lm_contentEl = 11, lm_markers = [],
       lm_overlays = [leafletOverlay (circleData ''ID_5'' 20 ''m'') True],
       lm_mapLayers = [''real''] \<rparr>"

definition entry :: "string \<Rightarrow> overlayEntry" where
  "entry len = \<lparr> fe_color = Some ''red'', fe_loc = Some (1, 2), fe_length = Some len,
                 fe_desc = Some ''camp'' \<rparr>"

text \<open>An overlay of the document \<open>note\<close>, as the handler adds it for \<open>entry\<close>.\<close>

definition noteCircle :: "real \<Rightarrow> string \<Rightarrow> ILeafletOverlay" where
  "noteCircle r u =
     \<lparr> ov_leafletInstance = Circle (1, 2) ''red'', ov_layer = Some ''real'',
       ov_data = \<lparr> od_radius = r, od_loc = (1, 2), od_color = ''red'', od_unit = u,
                   od_layer = Some ''real'', od_desc = Some ''camp'', od_id = ''note'' \<rparr>,
       ov_mutable = False, ov_id = ''note'' \<rparr>"

text \<open>
  \<open>worldMap\<close> with two overlays of the document \<open>note\<close>: the map after a
  notification for \<open>note\<close> declaring \<open>30 m\<close> and \<open>2 km\<close>.
\<close>

definition twoDeclared :: LeafletMap where
  "twoDeclared =
     \<lparr> lm_id = ''world'', lm_contentEl = 11, lm_markers = [],
       lm_overlays =
         [noteCircle 2 ''km'', noteCircle 30 ''m'', leafletOverlay (circleData ''ID_5'' 20 ''m'') True],
       lm_mapLayers = [''real''] \<rparr>"

section \<open>The save cycle: merge and garbage collection\<close>

lemma mergeMaps_snoc:
  "mergeMaps now mfs store (ms @ [m]) = mergeMap now mfs (mergeMaps now mfs store ms) m"
  by (simp add: mergeMaps_def)

lemma freshRecord_id: "r_id (freshRecord now mfs m) = Some (mi_id m)"
  by (simp add: freshRecord_def)

text \<open>
  After the merge loop the records carrying the id of an active map are exactly one: the
  fresh record of the last element of \<open>this.maps\<close> with that id.
\<close>

lemma mergeMaps_active:
  "m \<in> set ms \<Longrightarrow>
   filter (\<lambda>r. r_id r = Some (mi_id m)) (mergeMaps now mfs store ms) =
     [freshRecord now mfs (last (filter (\<lambda>m'. mi_id m' = mi_id m) ms))]"
proof (induction ms rule: rev_induct)
  case Nil
  then show ?case by simp
next
  case (snoc x xs)
  show ?case
  proof (cases "mi_id x = mi_id m")
    case True
    then show ?thesis
      by (simp add: mergeMaps_snoc mergeMap_def freshRecord_id)
  next
    case False
    with snoc.prems have "m \<in> set xs" by auto
    from False have eq: "(\<lambda>r. r_id r \<noteq> Some (mi_id x) \<and> r_id r = Some (mi_id m)) =
        (\<lambda>r. r_id r = Some (mi_id m))"
      by auto
    from snoc.IH [OF \<open>m \<in> set xs\<close>] False show ?thesis
      by (simp add: mergeMaps_snoc mergeMap_def freshRecord_id eq)
  qed
qed

lemma saveSettings_beforeGc:
  "mapMarkers (saveSettings now p) = filter (gcKeep now) (beforeGc now p)"
  by (simp add: saveSettings_def beforeGc_def)

lemma mergeMaps_inactive:
  "r \<in> set store \<Longrightarrow> \<forall>m \<in> set ms. r_id r \<noteq> Some (mi_id m) \<Longrightarrow>
   r \<in> set (mergeMaps now mfs store ms)"
  by (induction ms rule: rev_induct) (auto simp: mergeMaps_snoc mergeMap_def mergeMaps_def)

text \<open>
  A stored record with marker or overlay data whose id is that of no active map reaches
  the last filter as it is.
\<close>

lemma stored_reaches_gc:
  "r \<in> set (mapMarkers p) \<Longrightarrow> hasData r \<Longrightarrow> \<forall>m \<in> set (maps p). r_id r \<noteq> Some (mi_id m) \<Longrightarrow>
   r \<in> set (beforeGc now p)"
  by (simp add: beforeGc_def mergeMaps_inactive)

lemma beforeGc_idleStore: "beforeGc sampleNow idleStore = mapMarkers idleStore"
  by (simp add: beforeGc_def mergeMaps_def idleStore_def hasData_def stored_def)

text \<open>
  C2. In a save cycle, of the records that reach the last filter (those with marker or
  overlay data, after the merge of the active maps): a record with a non-empty id, no
  files and \<open>lastAccessed\<close> more than 7 days (604800000 ms) before now is dropped; a
  record with no files and \<open>lastAccessed\<close> at most 7 days before now (6 days, for one)
  is kept; a record with files is kept whatever its \<open>lastAccessed\<close>.
\<close>

theorem gc_boundary:
  assumes "r \<in> set (beforeGc now p)"
  shows "(\<not> falsy (r_id r) \<and> r_files r = [] \<and> r_lastAccessed r = Some t \<and> now - t > 604800000
            \<longrightarrow> r \<notin> set (mapMarkers (saveSettings now p)))
       \<and> (r_files r = [] \<and> r_lastAccessed r = Some t \<and> now - t \<le> 604800000
            \<longrightarrow> r \<in> set (mapMarkers (saveSettings now p)))
       \<and> (r_files r \<noteq> [] \<longrightarrow> r \<in> set (mapMarkers (saveSettings now p)))"
  using assms by (auto simp: saveSettings_beforeGc gcKeep_def)

theorem gc_boundary_witness:
  "stored (Some ''a'') [] (8 * day) \<in> set (beforeGc sampleNow idleStore)
   \<and> stored (Some ''a'') [] (8 * day) \<notin> set (mapMarkers (saveSettings sampleNow idleStore))
   \<and> stored (Some ''b'') [] (6 * day) \<in> set (beforeGc sampleNow idleStore)
   \<and> stored (Some ''b'') [] (6 * day) \<in> set (mapMarkers (saveSettings sampleNow idleStore))
   \<and> stored (Some ''c'') [''Notes/World.md''] (30 * day) \<in> set (beforeGc sampleNow idleStore)
   \<and> stored (Some ''c'') [''Notes/World.md''] (30 * day)
        \<in> set (mapMarkers (saveSettings sampleNow idleStore))"
proof -
  have a: "stored (Some ''a'') [] (8 * day) \<in> set (beforeGc sampleNow idleStore)"
    unfolding beforeGc_idleStore by (simp add: idleStore_def)
  have b: "stored (Some ''b'') [] (6 * day) \<in> set (beforeGc sampleNow idleStore)"
    unfolding beforeGc_idleStore by (simp add: idleStore_def)
  have c: "stored (Some ''c'') [''Notes/World.md''] (30 * day) \<in> set (beforeGc sampleNow idleStore)"
    unfolding beforeGc_idleStore by (simp add: idleStore_def)
  have a': "stored (Some ''a'') [] (8 * day) \<notin> set (mapMarkers (saveSettings sampleNow idleStore))"
    using gc_boundary [OF a, of "sampleNow - 8 * day"]
    by (simp add: stored_def falsy_def day_def)
  have b': "stored (Some ''b'') [] (6 * day) \<in> set (mapMarkers (saveSettings sampleNow idleStore))"
    using gc_boundary [OF b, of "sampleNow - 6 * day"]
    by (simp add: stored_def day_def)
  have c': "stored (Some ''c'') [''Notes/World.md''] (30 * day)
      \<in> set (mapMarkers (saveSettings sampleNow idleStore))"
    using gc_boundary [OF c, of 0]
    by (simp add: stored_def)
  from a a' b b' c c' show ?thesis by blast
qed

text \<open>
  C10. The last filter of a save cycle keeps every record whose id is absent or empty,
  whatever its files and its \<open>lastAccessed\<close>: such a record that reaches the filter
  (it has marker or overlay data) is in the store after the save.
\<close>

theorem gc_keeps_falsy_id:
  assumes "r \<in> set (beforeGc now p)" and "falsy (r_id r)"
  shows "r \<in> set (mapMarkers (saveSettings now p))"
  using assms by (simp add: saveSettings_beforeGc gcKeep_def)

theorem gc_keeps_falsy_id_witness:
  "stored None [] (30 * day) \<in> set (beforeGc sampleNow idleStore)
   \<and> falsy (r_id (stored None [] (30 * day)))
   \<and> stored None [] (30 * day) \<in> set (mapMarkers (saveSettings sampleNow idleStore))"
proof -
  have h1: "stored None [] (30 * day) \<in> set (beforeGc sampleNow idleStore)"
    unfolding beforeGc_idleStore by (simp add: idleStore_def)
  have h2: "falsy (r_id (stored None [] (30 * day)))"
    by (simp add: stored_def falsy_def)
  from gc_keeps_falsy_id [OF h1 h2] h1 h2 show ?thesis by blast
qed

lemma gcKeep_freshRecord: "gcKeep now (freshRecord now mfs m)"
  by (simp add: gcKeep_def freshRecord_def)

text \<open>
  C8. In a save cycle each active map first removes the stored records with its id and
  then appends its fresh record. So after the save the records with the id of an active
  map are exactly the fresh record of the last element of \<open>this.maps\<close> with that id,
  when that record has marker or overlay data, and none otherwise: one record at most,
  and nothing of an older record with that id is left.
\<close>

theorem save_one_record_per_active_id:
  assumes "m \<in> set (maps p)"
  shows "filter (\<lambda>r. r_id r = Some (mi_id m)) (mapMarkers (saveSettings now p)) =
    (if hasData (freshRecord now (mapFiles p) (last (filter (\<lambda>m'. mi_id m' = mi_id m) (maps p))))
     then [freshRecord now (mapFiles p) (last (filter (\<lambda>m'. mi_id m' = mi_id m) (maps p)))]
     else [])"
proof -
  let ?P = "\<lambda>r. r_id r = Some (mi_id m)"
  let ?all = "mergeMaps now (mapFiles p) (mapMarkers p) (maps p)"
  let ?fresh = "freshRecord now (mapFiles p) (last (filter (\<lambda>m'. mi_id m' = mi_id m) (maps p)))"
  have act: "filter ?P ?all = [?fresh]"
    using assms by (rule mergeMaps_active)
  have comm: "filter ?P (mapMarkers (saveSettings now p)) =
      filter (gcKeep now) (filter hasData (filter ?P ?all))"
    by (simp add: saveSettings_def conj_commute conj_left_commute)
  show ?thesis
    unfolding comm act by (simp add: gcKeep_freshRecord)
qed

theorem save_one_record_per_active_id_witness:
  "view 1 11 ''world'' [userMarker ''ID_1'' (1, 2)] \<in> set (maps threeViews)
   \<and> hasData (freshRecord sampleNow (mapFiles threeViews)
        (view 3 13 ''world'' [userMarker ''ID_1'' (1, 2), userMarker ''ID_2'' (3, 4)]))
   \<and> filter (\<lambda>r. r_id r = Some ''world'') (mapMarkers (saveSettings sampleNow threeViews)) =
       [freshRecord sampleNow (mapFiles threeViews)
          (view 3 13 ''world'' [userMarker ''ID_1'' (1, 2), userMarker ''ID_2'' (3, 4)])]
   \<and> r_files (freshRecord sampleNow (mapFiles threeViews)
        (view 3 13 ''world'' [userMarker ''ID_1'' (1, 2), userMarker ''ID_2'' (3, 4)])) =
       [''Notes/World.md'']
   \<and> stored (Some ''world'') [''Old.md''] (2 * day) \<notin> set (mapMarkers (saveSettings sampleNow threeViews))"
proof -
  let ?fresh = "freshRecord sampleNow (mapFiles threeViews)
        (view 3 13 ''world'' [userMarker ''ID_1'' (1, 2), userMarker ''ID_2'' (3, 4)])"
  have h: "view 1 11 ''world'' [userMarker ''ID_1'' (1, 2)] \<in> set (maps threeViews)"
    by (simp add: threeViews_def)
  have i: "mi_id (view 1 11 ''world'' [userMarker ''ID_1'' (1, 2)]) = ''world''"
    by (simp add: view_def)
  have l: "last (filter (\<lambda>m'. mi_id m' = ''world'') (maps threeViews)) =
      view 3 13 ''world'' [userMarker ''ID_1'' (1, 2), userMarker ''ID_2'' (3, 4)]"
    by (simp add: threeViews_def view_def)
  have d: "hasData ?fresh"
    by (simp add: hasData_def freshRecord_def view_def userMarker_def)
  have f: "r_files ?fresh = [''Notes/World.md'']"
    by (simp add: freshRecord_def view_def threeViews_def)
  have one: "filter (\<lambda>r. r_id r = Some ''world'') (mapMarkers (saveSettings sampleNow threeViews)) =
      [?fresh]"
    using save_one_record_per_active_id [OF h, of sampleNow] d unfolding i l by simp
  have old: "r_id (stored (Some ''world'') [''Old.md''] (2 * day)) = Some ''world''"
    by (simp add: stored_def)
  have differ: "stored (Some ''world'') [''Old.md''] (2 * day) \<noteq> ?fresh"
    by (simp add: stored_def freshRecord_def view_def threeViews_def)
  have gone: "stored (Some ''world'') [''Old.md''] (2 * day)
      \<notin> set (mapMarkers (saveSettings sampleNow threeViews))"
  proof
    assume "stored (Some ''world'') [''Old.md''] (2 * day)
      \<in> set (mapMarkers (saveSettings sampleNow threeViews))"
    with old have "stored (Some ''world'') [''Old.md''] (2 * day)
      \<in> set (filter (\<lambda>r. r_id r = Some ''world'') (mapMarkers (saveSettings sampleNow threeViews)))"
      by simp
    with one differ show False by simp
  qed
  from h d one f gone show ?thesis by blast
qed

lemma moveExisting_absent:
  "\<forall>m \<in> set ms. mk_id m \<noteq> mk_id marker \<Longrightarrow> moveExisting marker ms = ms"
  by (induction ms) auto

lemma moveExisting_first:
  "\<forall>x \<in> set ms1. mk_id x \<noteq> mk_id marker \<Longrightarrow> mk_id m = mk_id marker \<Longrightarrow>
   moveExisting marker (ms1 @ m # ms2) =
     ms1 @ m\<lparr> mk_leafletInstance := mk_leafletInstance marker, mk_loc := mk_loc marker \<rparr> # ms2"
  by (induction ms1) auto

lemma saveSettings_maps: "maps (saveSettings now p) = maps p"
  by (simp add: saveSettings_def)

text \<open>
  C6. A position broadcast of \<open>marker-dragging\<close> leaves a sibling view that has no
  marker with the id of the dragged marker as it was: the handler returns for that
  sibling, with no error and nothing stored for later. In a sibling view that has such a
  marker, the first one gets the position of the dragged marker, in its Leaflet object
  and in \<open>loc\<close>. The other views and the store are untouched.
\<close>

theorem dragging_skips_missing:
  assumes "i < length (maps p)"
  shows "length (maps (markerDragging origin marker p)) = length (maps p)
    \<and> mapMarkers (markerDragging origin marker p) = mapMarkers p
    \<and> (isSibling origin (maps p ! i)
         \<and> (\<forall>m \<in> set (lm_markers (mi_map (maps p ! i))). mk_id m \<noteq> mk_id marker)
        \<longrightarrow> maps (markerDragging origin marker p) ! i = maps p ! i)
    \<and> (isSibling origin (maps p ! i)
         \<and> lm_markers (mi_map (maps p ! i)) = ms1 @ m # ms2
         \<and> (\<forall>x \<in> set ms1. mk_id x \<noteq> mk_id marker) \<and> mk_id m = mk_id marker
        \<longrightarrow> maps (markerDragging origin marker p) ! i =
              (maps p ! i)\<lparr> mi_map := (mi_map (maps p ! i))
                \<lparr> lm_markers := ms1 @ m\<lparr> mk_leafletInstance := mk_leafletInstance marker,
                                           mk_loc := mk_loc marker \<rparr> # ms2 \<rparr> \<rparr>)
    \<and> (\<not> isSibling origin (maps p ! i)
        \<longrightarrow> maps (markerDragging origin marker p) ! i = maps p ! i)"
  using assms
  by (simp add: markerDragging_def moveExisting_absent moveExisting_first)

theorem dragging_skips_missing_witness:
  "0 < length (maps threeViews) \<and> 1 < length (maps threeViews)
   \<and> maps (markerDragging (mi_map (maps threeViews ! 2)) (userMarker ''ID_2'' (9, 9)) threeViews) ! 0
       = view 1 11 ''world'' [userMarker ''ID_1'' (1, 2)]
   \<and> maps (markerDragging (mi_map (maps threeViews ! 2)) (userMarker ''ID_1'' (9, 9)) threeViews) ! 0
       = view 1 11 ''world'' [userMarker ''ID_1'' (9, 9)]
   \<and> maps (markerDragging (mi_map (maps threeViews ! 2)) (userMarker ''ID_1'' (9, 9)) threeViews) ! 1
       = view 2 12 ''city'' [userMarker ''ID_7'' (5, 5)]"
proof -
  have l0: "0 < length (maps threeViews)" and l1: "1 < length (maps threeViews)"
    by (simp_all add: threeViews_def)
  have a: "maps (markerDragging (mi_map (maps threeViews ! 2)) (userMarker ''ID_2'' (9, 9)) threeViews) ! 0
      = view 1 11 ''world'' [userMarker ''ID_1'' (1, 2)]"
    using dragging_skips_missing [OF l0, of "mi_map (maps threeViews ! 2)" "userMarker ''ID_2'' (9, 9)"]
    by (simp add: threeViews_def view_def userMarker_def isSibling_def)
  have b: "maps (markerDragging (mi_map (maps threeViews ! 2)) (userMarker ''ID_1'' (9, 9)) threeViews) ! 0
      = view 1 11 ''world'' [userMarker ''ID_1'' (9, 9)]"
    using dragging_skips_missing [OF l0, of "mi_map (maps threeViews ! 2)" "userMarker ''ID_1'' (9, 9)"
        "[]" "userMarker ''ID_1'' (1, 2)" "[]"]
    by (simp add: threeViews_def view_def userMarker_def isSibling_def)
  have c: "maps (markerDragging (mi_map (maps threeViews ! 2)) (userMarker ''ID_1'' (9, 9)) threeViews) ! 1
      = view 2 12 ''city'' [userMarker ''ID_7'' (5, 5)]"
    using dragging_skips_missing [OF l1, of "mi_map (maps threeViews ! 2)" "userMarker ''ID_1'' (9, 9)"]
    by (simp add: threeViews_def view_def userMarker_def isSibling_def)
  from l0 l1 a b c show ?thesis by blast
qed

text \<open>
  C5. The handler of \<open>marker-added\<close> adds the marker to every view registered under
  the id of the originating map whose content element is another one: such a view gets
  one more marker, with the id, the type and the location of the new marker and no
  tooltip bound. The views of other maps and the views with the content element of the
  originator are left as they were.
\<close>

theorem added_broadcast:
  assumes "i < length (maps p)"
  shows "length (maps (snd (markerAdded now origin marker p))) = length (maps p)
    \<and> (isSibling origin (maps p ! i) \<longrightarrow>
          (\<exists>replica. maps (snd (markerAdded now origin marker p)) ! i =
              (maps p ! i)\<lparr> mi_map := (mi_map (maps p ! i))
                 \<lparr> lm_markers := lm_markers (mi_map (maps p ! i)) @ [replica] \<rparr> \<rparr>
            \<and> mk_id replica = mk_id marker \<and> mk_type replica = mk_type marker
            \<and> mk_loc replica = mk_loc marker \<and> \<not> mk_tooltip replica))
    \<and> (\<not> isSibling origin (maps p ! i) \<longrightarrow>
          maps (snd (markerAdded now origin marker p)) ! i = maps p ! i)"
proof -
  let ?replica = "marker\<lparr> mk_tooltip := False \<rparr>"
  have props: "mk_id ?replica = mk_id marker \<and> mk_type ?replica = mk_type marker
      \<and> mk_loc ?replica = mk_loc marker \<and> \<not> mk_tooltip ?replica"
    by simp
  have len: "length (maps (snd (markerAdded now origin marker p))) = length (maps p)"
    by (simp add: markerAdded_def Let_def saveSettings_maps)
  have sib: "isSibling origin (maps p ! i) \<Longrightarrow>
      maps (snd (markerAdded now origin marker p)) ! i =
        (maps p ! i)\<lparr> mi_map := (mi_map (maps p ! i))
           \<lparr> lm_markers := lm_markers (mi_map (maps p ! i)) @ [?replica] \<rparr> \<rparr>"
    using assms by (simp add: markerAdded_def Let_def saveSettings_maps addMarker_def)
  have other: "\<not> isSibling origin (maps p ! i) \<Longrightarrow>
      maps (snd (markerAdded now origin marker p)) ! i = maps p ! i"
    using assms by (simp add: markerAdded_def Let_def saveSettings_maps)
  from len sib other props show ?thesis by blast
qed

theorem added_broadcast_witness:
  "2 < length (maps threeViews)
   \<and> isSibling (mi_map (maps threeViews ! 0)) (maps threeViews ! 2)
   \<and> (\<exists>replica.
         maps (snd (markerAdded sampleNow (mi_map (maps threeViews ! 0))
                      (userMarker ''ID_9'' (7, 8)) threeViews)) ! 2 =
           (maps threeViews ! 2)\<lparr> mi_map := (mi_map (maps threeViews ! 2))
              \<lparr> lm_markers := lm_markers (mi_map (maps threeViews ! 2)) @ [replica] \<rparr> \<rparr>
         \<and> mk_id replica = mk_id (userMarker ''ID_9'' (7, 8))
         \<and> mk_type replica = mk_type (userMarker ''ID_9'' (7, 8))
         \<and> mk_loc replica = mk_loc (userMarker ''ID_9'' (7, 8)) \<and> \<not> mk_tooltip replica)
   \<and> \<not> isSibling (mi_map (maps threeViews ! 0)) (maps threeViews ! 0)
   \<and> maps (snd (markerAdded sampleNow (mi_map (maps threeViews ! 0))
                  (userMarker ''ID_9'' (7, 8)) threeViews)) ! 0 = maps threeViews ! 0"
proof -
  have l2: "2 < length (maps threeViews)" and l0: "0 < length (maps threeViews)"
    by (simp_all add: threeViews_def)
  have s2: "isSibling (mi_map (maps threeViews ! 0)) (maps threeViews ! 2)"
    by (simp add: threeViews_def view_def isSibling_def)
  have s0: "\<not> isSibling (mi_map (maps threeViews ! 0)) (maps threeViews ! 0)"
    by (simp add: threeViews_def view_def isSibling_def)
  from added_broadcast [OF l2, of sampleNow "mi_map (maps threeViews ! 0)" "userMarker ''ID_9'' (7, 8)"]
    added_broadcast [OF l0, of sampleNow "mi_map (maps threeViews ! 0)" "userMarker ''ID_9'' (7, 8)"]
    l2 s2 s0
  show ?thesis by blast
qed

section \<open>The render of a block: overlays, errors, centre\<close>

lemma mset_sortInsert: "sortInsert cmp a xs = Inr ys \<Longrightarrow> mset ys = add_mset a (mset xs)"
  by (induction xs arbitrary: ys) (auto split: sum.splits if_splits)

lemma mset_jsSort: "jsSort cmp xs = Inr ys \<Longrightarrow> mset ys = mset xs"
  by (induction xs arbitrary: ys) (auto split: sum.splits dest: mset_sortInsert)

lemma set_sortInsert: "sortInsert cmp a xs = Inr ys \<Longrightarrow> set ys = insert a (set xs)"
  using mset_sortInsert [of cmp a xs ys] by (metis set_mset_add_mset_insert set_mset_mset)

lemma radiusBefore_iff:
  "radiusBefore toMeters a b =
     (\<exists>ra rb. meters toMeters a = Inr ra \<and> meters toMeters b = Inr rb \<and> rb \<le> ra)"
  by (auto simp: radiusBefore_def split: sum.splits)

lemma compareRadius_Inr:
  "compareRadius toMeters a b = Inr c \<Longrightarrow>
   \<exists>ra rb. meters toMeters a = Inr ra \<and> meters toMeters b = Inr rb \<and> c = rb - ra"
  by (auto simp: compareRadius_def split: sum.splits)

lemma radiusBefore_trans: "radiusBefore toMeters a b \<Longrightarrow> radiusBefore toMeters b c \<Longrightarrow> radiusBefore toMeters a c"
  by (auto simp: radiusBefore_iff)

lemma sorted_sortInsert:
  "sortInsert (compareRadius toMeters) x xs = Inr ys \<Longrightarrow> sorted_wrt (radiusBefore toMeters) xs \<Longrightarrow>
   sorted_wrt (radiusBefore toMeters) ys"
proof (induction xs arbitrary: ys)
  case Nil
  then show ?case by auto
next
  case (Cons b bs)
  from Cons.prems(1) obtain c where c: "compareRadius toMeters x b = Inr c"
    by (auto split: sum.splits)
  then obtain rx rb where conv: "meters toMeters x = Inr rx" "meters toMeters b = Inr rb" "c = rb - rx"
    using compareRadius_Inr by blast
  show ?case
  proof (cases "c \<le> 0")
    case True
    with Cons.prems(1) c have ys: "ys = x # b # bs" by simp
    from True conv have xb: "radiusBefore toMeters x b" by (simp add: radiusBefore_iff)
    have "\<forall>y \<in> set bs. radiusBefore toMeters x y"
      using Cons.prems(2) xb radiusBefore_trans by fastforce
    with xb Cons.prems(2) show ?thesis unfolding ys by simp
  next
    case False
    with Cons.prems(1) c obtain cs where cs: "sortInsert (compareRadius toMeters) x bs = Inr cs"
      and ys: "ys = b # cs"
      by (auto split: sum.splits)
    from False conv have bx: "radiusBefore toMeters b x" by (simp add: radiusBefore_iff)
    from Cons.prems(2) have "sorted_wrt (radiusBefore toMeters) bs" by simp
    from Cons.IH [OF cs this] have sorted: "sorted_wrt (radiusBefore toMeters) cs" .
    have "set cs = insert x (set bs)" using cs by (rule set_sortInsert)
    with bx Cons.prems(2) have "\<forall>z \<in> set cs. radiusBefore toMeters b z" by auto
    with sorted show ?thesis unfolding ys by simp
  qed
qed

lemma sorted_jsSort:
  "jsSort (compareRadius toMeters) xs = Inr ys \<Longrightarrow> sorted_wrt (radiusBefore toMeters) ys"
proof (induction xs arbitrary: ys)
  case Nil
  then show ?case by simp
next
  case (Cons x xs)
  then obtain zs where zs: "jsSort (compareRadius toMeters) xs = Inr zs"
    and ins: "sortInsert (compareRadius toMeters) x zs = Inr ys"
    by (auto split: sum.splits)
  from sorted_sortInsert [OF ins Cons.IH [OF zs]] show ?case .
qed

lemma largerFirst_overlayData:
  "largerFirst toMeters (overlayData layer0 a) (overlayData layer0 b) = radiusBefore toMeters a b"
  by (auto simp: largerFirst_def radiusBefore_iff overlayData_def meters_def split: sum.splits)

text \<open>The sort throws when a unit of a list of two or more does not convert.\<close>

lemma sortInsert_throws_new:
  "meters toMeters x = Inl e \<Longrightarrow> xs \<noteq> [] \<Longrightarrow> \<exists>e'. sortInsert (compareRadius toMeters) x xs = Inl e'"
  by (cases xs) (auto simp: compareRadius_def)

lemma sortInsert_throws_old:
  "y \<in> set xs \<Longrightarrow> meters toMeters y = Inl e \<Longrightarrow> sorted_wrt (radiusBefore toMeters) xs \<Longrightarrow>
   \<exists>e'. sortInsert (compareRadius toMeters) x xs = Inl e'"
proof (induction xs)
  case Nil
  then show ?case by simp
next
  case (Cons b bs)
  show ?case
  proof (cases "y = b")
    case True
    with Cons.prems(2) show ?thesis
      by (auto simp: compareRadius_def split: sum.splits)
  next
    case False
    with Cons.prems have "radiusBefore toMeters b y" by auto
    with Cons.prems(2) show ?thesis by (simp add: radiusBefore_iff)
  qed
qed

lemma jsSort_throws:
  "y \<in> set xs \<Longrightarrow> meters toMeters y = Inl e \<Longrightarrow> 2 \<le> length xs \<Longrightarrow>
   \<exists>e'. jsSort (compareRadius toMeters) xs = Inl e'"
proof (induction xs)
  case Nil
  then show ?case by simp
next
  case (Cons x xs)
  show ?case
  proof (cases "jsSort (compareRadius toMeters) xs")
    case (Inl e')
    then show ?thesis by simp
  next
    case (Inr zs)
    then have sorted: "sorted_wrt (radiusBefore toMeters) zs" by (rule sorted_jsSort)
    from Inr have set: "set zs = set xs" using mset_jsSort by (metis set_mset_mset)
    from Cons.prems(3) have "xs \<noteq> []" by auto
    with set have nonempty: "zs \<noteq> []" by auto
    show ?thesis
    proof (cases "y = x")
      case True
      with Cons.prems(2) nonempty Inr show ?thesis
        using sortInsert_throws_new [of toMeters x e zs] by simp
    next
      case False
      with Cons.prems(1) set have "y \<in> set zs" by auto
      from sortInsert_throws_old [OF this Cons.prems(2) sorted, of x] Inr show ?thesis by simp
    qed
  qed
qed

lemma sample_calls:
  "overlayCalls tagPattern decimalNumber metric None
     [circleSpec ''a'' ''5 m'', circleSpec ''b'' ''50 m'', circleSpec ''c'' ''1 m''] =
   Inr [circleData ''b'' 50 ''m'', circleData ''a'' 5 ''m'', circleData ''c'' 1 ''m'']"
  by (simp add: overlayCalls_def parseOverlay_def badRadius_def tagPattern_def isDigit_def
      decimalNumber_def digitsValue_def circleSpec_def circleData_def
      compareRadius_def meters_def metric_def overlayData_def)

lemma sample_unit_throws:
  "overlayCalls tagPattern decimalNumber metric None
     [circleSpec ''a'' ''5 m'', circleSpec ''b'' ''3 parsec''] = Inl (Error ''invalid unit'')"
  by (simp add: overlayCalls_def parseOverlay_def badRadius_def tagPattern_def isDigit_def
      decimalNumber_def digitsValue_def circleSpec_def
      compareRadius_def meters_def metric_def)

text \<open>
  Among two or more parsed overlays, a unit that does not convert ends the block in the
  comparator: no overlay is added.
\<close>

lemma unknown_unit_aborts:
  assumes "parseOverlays rx toNumber raws = Inr overlayArray"
      and "2 \<le> length overlayArray"
      and "a \<in> set overlayArray" and "meters toMeters a = Inl e"
  shows "\<exists>e'. overlayCalls rx toNumber toMeters layer0 raws = Inl e'"
proof -
  from jsSort_throws [OF assms(3) assms(4) assms(2)] obtain e'
    where "jsSort (compareRadius toMeters) overlayArray = Inl e'" by blast
  with assms(1) show ?thesis by (simp add: overlayCalls_def)
qed

lemma parseOverlay_error:
  "parseOverlay rx toNumber raw = Inl e \<Longrightarrow> e = Error radiusMessage"
  by (auto simp: parseOverlay_def split: if_splits option.splits prod.splits)

lemma parseOverlays_bad:
  "\<exists>raw \<in> set raws. badRadius rx toNumber (ro_length raw) \<Longrightarrow>
   parseOverlays rx toNumber raws = Inl (Error radiusMessage)"
proof (induction raws)
  case Nil
  then show ?case by simp
next
  case (Cons raw raws)
  show ?case
  proof (cases "badRadius rx toNumber (ro_length raw)")
    case True
    then show ?thesis by (simp add: parseOverlay_def)
  next
    case False
    with Cons.prems have "\<exists>raw \<in> set raws. badRadius rx toNumber (ro_length raw)"
      by auto
    with Cons.IH show ?thesis
      by (auto split: sum.splits dest: parseOverlay_error)
  qed
qed

text \<open>
  C3. The overlays of a block are added to the map in the order of their radius in
  metres, largest first, whatever the order of their declaration: when the block reaches
  the calls of \<open>map.addOverlay\<close>, each call has a radius that converts and is not
  smaller than those of the later calls, and the calls are the parsed tuples, each once.
  Radii of 5 m, 50 m and 1 m are added as 50 m, 5 m, 1 m. (A unit the conversion does
  not know, among two or more overlays, throws in the comparator: no call is made.)
\<close>

theorem overlays_added_largest_first:
  assumes "overlayCalls rx toNumber toMeters layer0 raws = Inr calls"
  shows "sorted_wrt (largerFirst toMeters) calls
    \<and> (\<exists>overlayArray. parseOverlays rx toNumber raws = Inr overlayArray
          \<and> mset calls = mset (map (overlayData layer0) overlayArray))"
proof -
  from assms obtain overlayArray ordered where
    parsed: "parseOverlays rx toNumber raws = Inr overlayArray" and
    sort: "jsSort (compareRadius toMeters) overlayArray = Inr ordered" and
    calls: "calls = map (overlayData layer0) ordered"
    by (auto simp: overlayCalls_def split: sum.splits)
  have "sorted_wrt (radiusBefore toMeters) ordered"
    using sort by (rule sorted_jsSort)
  then have descending: "sorted_wrt (largerFirst toMeters) calls"
    unfolding calls by (simp add: sorted_wrt_map largerFirst_overlayData)
  have "mset calls = mset (map (overlayData layer0) overlayArray)"
    unfolding calls using mset_jsSort [OF sort] by simp
  with descending parsed show ?thesis by blast
qed

theorem overlays_added_largest_first_witness:
  "overlayCalls tagPattern decimalNumber metric None
     [circleSpec ''a'' ''5 m'', circleSpec ''b'' ''50 m'', circleSpec ''c'' ''1 m''] =
     Inr [circleData ''b'' 50 ''m'', circleData ''a'' 5 ''m'', circleData ''c'' 1 ''m'']
   \<and> sorted_wrt (largerFirst metric)
        [circleData ''b'' 50 ''m'', circleData ''a'' 5 ''m'', circleData ''c'' 1 ''m'']
   \<and> (\<exists>overlayArray.
         parseOverlays tagPattern decimalNumber
           [circleSpec ''a'' ''5 m'', circleSpec ''b'' ''50 m'', circleSpec ''c'' ''1 m''] =
           Inr overlayArray
         \<and> mset [circleData ''b'' 50 ''m'', circleData ''a'' 5 ''m'', circleData ''c'' 1 ''m''] =
             mset (map (overlayData None) overlayArray))
   \<and> largerFirst metric (circleData ''b'' 50 ''m'') (circleData ''a'' 5 ''m'')
   \<and> \<not> largerFirst metric (circleData ''c'' 1 ''m'') (circleData ''a'' 5 ''m'')
   \<and> overlayCalls tagPattern decimalNumber metric None
        [circleSpec ''a'' ''5 m'', circleSpec ''b'' ''3 parsec''] = Inl (Error ''invalid unit'')"
proof -
  have order: "largerFirst metric (circleData ''b'' 50 ''m'') (circleData ''a'' 5 ''m'')
      \<and> \<not> largerFirst metric (circleData ''c'' 1 ''m'') (circleData ''a'' 5 ''m'')"
    by (simp add: largerFirst_def metric_def circleData_def)
  from overlays_added_largest_first [OF sample_calls] sample_calls sample_unit_throws order
  show ?thesis by blast
qed

text \<open>
  C7. A block whose parameters have no id (or an empty one) is not rendered: the user
  gets the two notices about the missing id and the notice that the map could not be
  loaded, no map is built, and the block element shows the message \<open>ID required\<close>.
\<close>

theorem missing_id_is_fatal:
  assumes "falsy (p_id params)"
  shows "postprocessor rx toNumber toMeters appLat appLong params =
    \<lparr> out_notices =
        [''As of version 3.0.0, Obsidian Leaflet maps must have an ID.'',
         ''All marker data associated with this map will sync to the new ID.'',
         ''There was an error loading the map.''],
      out_el = ErrorShown ''ID required'' \<rparr>"
  using assms by (simp add: postprocessor_def renderBlock_def)

theorem missing_id_is_fatal_witness:
  "falsy (p_id (block None [circleSpec ''a'' ''5 m''] (Str ''10'') (Str ''20'')))
   \<and> postprocessor tagPattern decimalNumber metric 39 (- 82)
        (block None [circleSpec ''a'' ''5 m''] (Str ''10'') (Str ''20'')) =
      \<lparr> out_notices =
          [''As of version 3.0.0, Obsidian Leaflet maps must have an ID.'',
           ''All marker data associated with this map will sync to the new ID.'',
           ''There was an error loading the map.''],
        out_el = ErrorShown ''ID required'' \<rparr>"
proof -
  have h: "falsy (p_id (block None [circleSpec ''a'' ''5 m''] (Str ''10'') (Str ''20'')))"
    by (simp add: block_def falsy_def)
  from missing_id_is_fatal [OF h] h show ?thesis by blast
qed

text \<open>
  C1, as the code has it. A block with three overlays, the second with the radius
  \<open>abc\<close>, renders no overlay at all: the error of the one overlay is thrown out of the
  whole \<open>try\<close> block, and the block element shows its message.
\<close>

theorem malformed_radius_counterexample:
  "postprocessor tagPattern decimalNumber metric 39 (- 82)
     (block (Some ''world'')
        [circleSpec ''a'' ''5 m'', circleSpec ''b'' ''abc'', circleSpec ''c'' ''1 m'']
        (Str ''10'') (Str ''20'')) =
   \<lparr> out_notices = [''There was an error loading the map.''],
     out_el = ErrorShown radiusMessage \<rparr>"
  by (simp add: postprocessor_def renderBlock_def overlayCalls_def parseOverlay_def
      badRadius_def tagPattern_def isDigit_def decimalNumber_def digitsValue_def
      circleSpec_def block_def falsy_def)

text \<open>
  C1, amended. When a block has an id and one of its overlays (declared in the block or
  derived from documents) has a radius that does not match the pattern or whose numeric
  part is absent or not a number, the render of the whole map is aborted: no overlay is
  added, the user gets the notice that the map could not be loaded, and the block element
  shows the message of the radius error.
\<close>

theorem malformed_radius_aborts_render:
  assumes "\<not> falsy (p_id params)"
      and "\<exists>raw \<in> set (p_overlay params @ p_immutableOverlays params).
             badRadius rx toNumber (ro_length raw)"
  shows "postprocessor rx toNumber toMeters appLat appLong params =
    \<lparr> out_notices = [''There was an error loading the map.''],
      out_el = ErrorShown radiusMessage \<rparr>"
  using assms(1) parseOverlays_bad [OF assms(2)]
  by (simp add: postprocessor_def renderBlock_def overlayCalls_def)

theorem malformed_radius_aborts_render_witness:
  "\<not> falsy (p_id (block (Some ''city'') [circleSpec ''a'' ''7 km'', circleSpec ''b'' ''wide''] (Str ''1'') (Str ''2'')))
   \<and> (\<exists>raw \<in> set (p_overlay (block (Some ''city'') [circleSpec ''a'' ''7 km'', circleSpec ''b'' ''wide''] (Str ''1'') (Str ''2''))
                   @ p_immutableOverlays (block (Some ''city'') [circleSpec ''a'' ''7 km'', circleSpec ''b'' ''wide''] (Str ''1'') (Str ''2''))).
         badRadius tagPattern decimalNumber (ro_length raw))
   \<and> postprocessor tagPattern decimalNumber metric 39 (- 82)
        (block (Some ''city'') [circleSpec ''a'' ''7 km'', circleSpec ''b'' ''wide''] (Str ''1'') (Str ''2'')) =
      \<lparr> out_notices = [''There was an error loading the map.''],
        out_el = ErrorShown radiusMessage \<rparr>"
proof -
  let ?b = "block (Some ''city'') [circleSpec ''a'' ''7 km'', circleSpec ''b'' ''wide''] (Str ''1'') (Str ''2'')"
  have h1: "\<not> falsy (p_id ?b)"
    by (simp add: block_def falsy_def)
  have "badRadius tagPattern decimalNumber (ro_length (circleSpec ''b'' ''wide''))"
    by (simp add: badRadius_def tagPattern_def isDigit_def circleSpec_def)
  then have h2: "\<exists>raw \<in> set (p_overlay ?b @ p_immutableOverlays ?b).
      badRadius tagPattern decimalNumber (ro_length raw)"
    by (simp add: block_def)
  from malformed_radius_aborts_render [OF h1 h2] h1 h2 show ?thesis by blast
qed

text \<open>
  C9. When the latitude or the longitude does not convert to a number, the user gets a
  warning and the centre of the map takes the default for the failed component: 50 on an
  image map (so (50, 50) when both fail), the latitude or longitude of the settings on a
  geographic map. The centre is returned all the same: the warning is not an error.
\<close>

theorem coordinate_fallback:
  assumes "coordinate toNumber latitude = None \<or> coordinate toNumber longitude = None"
  shows "fst (getCoordinates toNumber type appLat appLong latitude longitude) = [coordinateWarning]
    \<and> (coordinate toNumber latitude = None \<longrightarrow>
          fst (snd (getCoordinates toNumber type appLat appLong latitude longitude)) =
            (case type of Image \<Rightarrow> 50 | Real \<Rightarrow> appLat))
    \<and> (coordinate toNumber longitude = None \<longrightarrow>
          snd (snd (getCoordinates toNumber type appLat appLong latitude longitude)) =
            (case type of Image \<Rightarrow> 50 | Real \<Rightarrow> appLong))
    \<and> (coordinate toNumber latitude = None \<and> coordinate toNumber longitude = None \<and> type = Image \<longrightarrow>
          snd (getCoordinates toNumber type appLat appLong latitude longitude) = (50, 50))"
  using assms
  by (cases type) (auto simp: getCoordinates_def Let_def)

theorem coordinate_fallback_witness:
  "coordinate decimalNumber (Str ''north'') = None
   \<and> coordinate decimalNumber (Str ''east'') = None
   \<and> getCoordinates decimalNumber Image 39 (- 82) (Str ''north'') (Str ''east'') =
       ([coordinateWarning], (50, 50))
   \<and> fst (getCoordinates decimalNumber Real 39 (- 82) (Str ''north'') (Str ''20'')) =
       [coordinateWarning]
   \<and> fst (snd (getCoordinates decimalNumber Real 39 (- 82) (Str ''north'') (Str ''20''))) = 39
   \<and> snd (snd (getCoordinates decimalNumber Real 39 (- 82) (Str ''20'') (Str ''east''))) = - 82"
proof -
  have n: "coordinate decimalNumber (Str ''north'') = None"
    by (simp add: coordinate_def decimalNumber_def isDigit_def)
  have e: "coordinate decimalNumber (Str ''east'') = None"
    by (simp add: coordinate_def decimalNumber_def isDigit_def)
  have both: "getCoordinates decimalNumber Image 39 (- 82) (Str ''north'') (Str ''east'') =
      ([coordinateWarning], (50, 50))"
    using coordinate_fallback [of decimalNumber "Str ''north''" "Str ''east''" Image 39 "- 82"] n e
    by (simp add: prod_eq_iff)
  have lat: "fst (getCoordinates decimalNumber Real 39 (- 82) (Str ''north'') (Str ''20'')) =
      [coordinateWarning]
    \<and> fst (snd (getCoordinates decimalNumber Real 39 (- 82) (Str ''north'') (Str ''20''))) = 39"
    using coordinate_fallback [of decimalNumber "Str ''north''" "Str ''20''" Real 39 "- 82"] n
    by simp
  have long: "snd (snd (getCoordinates decimalNumber Real 39 (- 82) (Str ''20'') (Str ''east''))) = - 82"
    using coordinate_fallback [of decimalNumber "Str ''20''" "Str ''east''" Real 39 "- 82"] e
    by simp
  from n e both lat long show ?thesis by blast
qed

section \<open>The replacement of the overlays of a document\<close>

lemma mset_insertOverlay: "mset (insertOverlay toMeters a bs) = add_mset a (mset bs)"
  by (induction bs) auto

lemma filter_insertOverlay_other:
  "\<not> P a \<Longrightarrow> filter P (insertOverlay toMeters a bs) = filter P bs"
  by (induction bs) auto

lemma mapLayers_addOverlay: "lm_mapLayers (addOverlay toMeters spec mutable m) = lm_mapLayers m"
  by (simp add: addOverlay_def)

lemma overlays_addOverlay:
  "lm_overlays (addOverlay toMeters spec mutable m) =
     insertOverlay toMeters (leafletOverlay spec mutable) (lm_overlays m)"
  by (simp add: addOverlay_def)

lemma id_entryOverlay: "ov_id (leafletOverlay (entryData overlayColor fileId layer e ru) mutable) = fileId"
  by (simp add: leafletOverlay_def entryData_def)

lemma inserted_Cons:
  "inserted rx toNumber overlayColor fileId layer (e # es) =
     (case entryRadius rx toNumber (entryLength e) of
        None \<Rightarrow> inserted rx toNumber overlayColor fileId layer es
      | Some ru \<Rightarrow> leafletOverlay (entryData overlayColor fileId layer e ru) False
          # inserted rx toNumber overlayColor fileId layer es)"
  by (simp add: inserted_def List.map_filter_simps split: option.splits)

lemma inserted_Nil: "inserted rx toNumber overlayColor fileId layer [] = []"
  by (simp add: inserted_def List.map_filter_simps)

lemma addEntries_others:
  "lm_mapLayers m = layer # layers \<Longrightarrow>
   filter (\<lambda>overlay. ov_id overlay \<noteq> fileId)
     (lm_overlays (snd (addEntries rx toNumber toMeters overlayColor fileName fileId es (notices, m)))) =
   filter (\<lambda>overlay. ov_id overlay \<noteq> fileId) (lm_overlays m)"
proof (induction es arbitrary: notices m)
  case Nil
  then show ?case by simp
next
  case (Cons e es)
  show ?case
  proof (cases "entryRadius rx toNumber (entryLength e)")
    case None
    with Cons show ?thesis by simp
  next
    case (Some ru)
    let ?m = "addOverlay toMeters (entryData overlayColor fileId layer e ru) False m"
    have layers: "lm_mapLayers ?m = layer # layers"
      using Cons.prems by (simp add: mapLayers_addOverlay)
    have "filter (\<lambda>overlay. ov_id overlay \<noteq> fileId) (lm_overlays ?m) =
        filter (\<lambda>overlay. ov_id overlay \<noteq> fileId) (lm_overlays m)"
      by (simp add: overlays_addOverlay filter_insertOverlay_other id_entryOverlay)
    with Cons.IH [OF layers] Some Cons.prems show ?thesis by simp
  qed
qed

lemma addEntries_tagged:
  "lm_mapLayers m = layer # layers \<Longrightarrow>
   mset (filter (\<lambda>overlay. ov_id overlay = fileId)
     (lm_overlays (snd (addEntries rx toNumber toMeters overlayColor fileName fileId es (notices, m))))) =
   mset (filter (\<lambda>overlay. ov_id overlay = fileId) (lm_overlays m))
     + mset (inserted rx toNumber overlayColor fileId layer es)"
proof (induction es arbitrary: notices m)
  case Nil
  then show ?case by (simp add: inserted_Nil)
next
  case (Cons e es)
  show ?case
  proof (cases "entryRadius rx toNumber (entryLength e)")
    case None
    with Cons show ?thesis by (simp add: inserted_Cons)
  next
    case (Some ru)
    let ?m = "addOverlay toMeters (entryData overlayColor fileId layer e ru) False m"
    have layers: "lm_mapLayers ?m = layer # layers"
      using Cons.prems by (simp add: mapLayers_addOverlay)
    have "mset (filter (\<lambda>overlay. ov_id overlay = fileId) (lm_overlays ?m)) =
        add_mset (leafletOverlay (entryData overlayColor fileId layer e ru) False)
          (mset (filter (\<lambda>overlay. ov_id overlay = fileId) (lm_overlays m)))"
      by (simp add: overlays_addOverlay mset_filter mset_insertOverlay id_entryOverlay)
    with Cons.IH [OF layers] Some Cons.prems show ?thesis
      by (simp add: inserted_Cons)
  qed
qed

lemma length_inserted:
  "length (inserted rx toNumber overlayColor fileId layer es) =
   length (filter (\<lambda>e. entryRadius rx toNumber (entryLength e) \<noteq> None) es)"
  by (induction es) (auto simp: inserted_Cons inserted_Nil split: option.splits)

lemma first_notification:
  "changed tagPattern decimalNumber metric ''blue'' ''Camp.md'' (Some ''note'')
     (Frontmatter (Some [entry ''30 m'', entry ''2 km''])) worldMap = ([], twoDeclared)"
  by (simp add: twoDeclared_def changed_def worldMap_def entryRadius_def entryLength_def
      entry_def tagPattern_def isDigit_def decimalNumber_def digitsValue_def addOverlay_def
      leafletOverlay_def entryData_def circleData_def metric_def noteCircle_def radiusInMeters_def)

lemma twoDeclared_layers: "lm_mapLayers twoDeclared = [''real'']"
  by (simp add: twoDeclared_def)

lemma twoDeclared_tagged:
  "length (filter (\<lambda>overlay. ov_id overlay = ''note'') (lm_overlays twoDeclared)) = 2"
  by (simp add: twoDeclared_def noteCircle_def leafletOverlay_def circleData_def)

lemma addEntries_notices:
  "lm_mapLayers m = layer # layers \<Longrightarrow>
   fst (addEntries rx toNumber toMeters overlayColor fileName fileId es (notices, m)) =
   notices @ map (\<lambda>e. lengthNotice fileName)
     (filter (\<lambda>e. entryRadius rx toNumber (entryLength e) = None) es)"
proof (induction es arbitrary: notices m)
  case Nil
  then show ?case by simp
next
  case (Cons e es)
  show ?case
  proof (cases "entryRadius rx toNumber (entryLength e)")
    case None
    with Cons show ?thesis by simp
  next
    case (Some ru)
    let ?m = "addOverlay toMeters (entryData overlayColor fileId layer e ru) False m"
    have layers: "lm_mapLayers ?m = layer # layers"
      using Cons.prems by (simp add: mapLayers_addOverlay)
    from Cons.IH [OF layers] Some Cons.prems show ?thesis by simp
  qed
qed

text \<open>
  C4, as the code has it. A map holds two overlays of the document \<open>note\<close>. A change
  notification that finds the document without frontmatter returns at once and leaves
  both; one that finds a single declaration whose length does not parse removes both and
  inserts none.
\<close>

theorem changed_counterexample:
  "length (filter (\<lambda>overlay. ov_id overlay = ''note'') (lm_overlays twoDeclared)) = 2
   \<and> length (filter (\<lambda>overlay. ov_id overlay = ''note'')
        (lm_overlays (snd (changed tagPattern decimalNumber metric ''blue'' ''Camp.md''
           (Some ''note'') NoFrontmatter twoDeclared)))) = 2
   \<and> length (filter (\<lambda>overlay. ov_id overlay = ''note'')
        (lm_overlays (snd (changed tagPattern decimalNumber metric ''blue'' ''Camp.md''
           (Some ''note'') (Frontmatter (Some [entry ''wide''])) twoDeclared)))) = 0"
proof -
  have none: "changed tagPattern decimalNumber metric ''blue'' ''Camp.md''
      (Some ''note'') NoFrontmatter twoDeclared = ([], twoDeclared)"
    by (simp add: changed_def)
  have "entryRadius tagPattern decimalNumber (entryLength (entry ''wide'')) = None"
    by (simp add: entryRadius_def entryLength_def entry_def tagPattern_def isDigit_def)
  then have wide: "lm_overlays (snd (changed tagPattern decimalNumber metric ''blue'' ''Camp.md''
      (Some ''note'') (Frontmatter (Some [entry ''wide''])) twoDeclared)) =
      filter (\<lambda>overlay. ov_id overlay \<noteq> ''note'') (lm_overlays twoDeclared)"
    by (simp add: changed_def)
  show ?thesis
    unfolding none wide by (simp add: twoDeclared_tagged)
qed

text \<open>
  C4, amended. On a change notification for a bound document whose cached metadata has
  frontmatter, on a map with a layer, the overlays tagged with the binding id of the
  document are replaced: after it they are the overlays built from the current
  declarations whose length parses, one for each, and the overlays with another id are
  as before; each declaration whose length does not parse raises one notice and is
  skipped; with no declarations none is left. After a change from 2 declared entries to
  1 entry that parses exactly 1 overlay has the binding id. A notification that finds no
  frontmatter changes nothing.
\<close>

theorem changed_replaces_overlays:
  assumes "lm_mapLayers m = layer # layers"
  shows "changed rx toNumber toMeters overlayColor fileName (Some fileId) NoFrontmatter m = ([], m)
    \<and> mset (filter (\<lambda>overlay. ov_id overlay = fileId)
         (lm_overlays (snd (changed rx toNumber toMeters overlayColor fileName (Some fileId)
            (Frontmatter (Some entries)) m)))) =
       mset (inserted rx toNumber overlayColor fileId layer entries)
    \<and> length (filter (\<lambda>overlay. ov_id overlay = fileId)
         (lm_overlays (snd (changed rx toNumber toMeters overlayColor fileName (Some fileId)
            (Frontmatter (Some entries)) m)))) =
       length (filter (\<lambda>e. entryRadius rx toNumber (entryLength e) \<noteq> None) entries)
    \<and> filter (\<lambda>overlay. ov_id overlay \<noteq> fileId)
         (lm_overlays (snd (changed rx toNumber toMeters overlayColor fileName (Some fileId)
            (Frontmatter (Some entries)) m))) =
       filter (\<lambda>overlay. ov_id overlay \<noteq> fileId) (lm_overlays m)
    \<and> fst (changed rx toNumber toMeters overlayColor fileName (Some fileId)
         (Frontmatter (Some entries)) m) =
       map (\<lambda>e. lengthNotice fileName)
         (filter (\<lambda>e. entryRadius rx toNumber (entryLength e) = None) entries)
    \<and> changed rx toNumber toMeters overlayColor fileName (Some fileId) (Frontmatter None) m =
       ([], m\<lparr> lm_overlays := filter (\<lambda>overlay. ov_id overlay \<noteq> fileId) (lm_overlays m) \<rparr>)"
proof -
  let ?removed = "m\<lparr> lm_overlays := filter (\<lambda>overlay. ov_id overlay \<noteq> fileId) (lm_overlays m) \<rparr>"
  let ?after = "lm_overlays (snd (changed rx toNumber toMeters overlayColor fileName (Some fileId)
            (Frontmatter (Some entries)) m))"
  have layers: "lm_mapLayers ?removed = layer # layers"
    using assms by simp
  have after: "?after = lm_overlays (snd (addEntries rx toNumber toMeters overlayColor fileName
      fileId entries ([], ?removed)))"
    by (simp add: changed_def)
  have tagged: "mset (filter (\<lambda>overlay. ov_id overlay = fileId) ?after) =
      mset (inserted rx toNumber overlayColor fileId layer entries)"
    unfolding after addEntries_tagged [OF layers] by simp
  have "length (filter (\<lambda>overlay. ov_id overlay = fileId) ?after) =
      length (inserted rx toNumber overlayColor fileId layer entries)"
    using tagged by (rule mset_eq_length)
  then have count: "length (filter (\<lambda>overlay. ov_id overlay = fileId) ?after) =
      length (filter (\<lambda>e. entryRadius rx toNumber (entryLength e) \<noteq> None) entries)"
    by (simp add: length_inserted)
  have others: "filter (\<lambda>overlay. ov_id overlay \<noteq> fileId) ?after =
      filter (\<lambda>overlay. ov_id overlay \<noteq> fileId) (lm_overlays m)"
    unfolding after addEntries_others [OF layers] by simp
  have none: "changed rx toNumber toMeters overlayColor fileName (Some fileId) NoFrontmatter m = ([], m)"
    by (simp add: changed_def)
  have notices: "fst (changed rx toNumber toMeters overlayColor fileName (Some fileId)
         (Frontmatter (Some entries)) m) =
       map (\<lambda>e. lengthNotice fileName)
         (filter (\<lambda>e. entryRadius rx toNumber (entryLength e) = None) entries)"
    using addEntries_notices [OF layers, of rx toNumber toMeters overlayColor fileName fileId entries "[]"]
    by (simp add: changed_def)
  have undeclared: "changed rx toNumber toMeters overlayColor fileName (Some fileId)
      (Frontmatter None) m =
       ([], m\<lparr> lm_overlays := filter (\<lambda>overlay. ov_id overlay \<noteq> fileId) (lm_overlays m) \<rparr>)"
    by (simp add: changed_def)
  from none tagged count others notices undeclared show ?thesis by blast
qed

theorem changed_replaces_overlays_witness:
  "changed tagPattern decimalNumber metric ''blue'' ''Camp.md'' (Some ''note'')
     (Frontmatter (Some [entry ''30 m'', entry ''2 km''])) worldMap = ([], twoDeclared)
   \<and> lm_mapLayers twoDeclared = ''real'' # []
   \<and> length (filter (\<lambda>overlay. ov_id overlay = ''note'') (lm_overlays twoDeclared)) = 2
   \<and> length (filter (\<lambda>overlay. ov_id overlay = ''note'')
        (lm_overlays (snd (changed tagPattern decimalNumber metric ''blue'' ''Camp.md''
           (Some ''note'') (Frontmatter (Some [entry ''5 m''])) twoDeclared)))) = 1
   \<and> filter (\<lambda>overlay. ov_id overlay \<noteq> ''note'')
        (lm_overlays (snd (changed tagPattern decimalNumber metric ''blue'' ''Camp.md''
           (Some ''note'') (Frontmatter (Some [entry ''5 m''])) twoDeclared))) =
       [leafletOverlay (circleData ''ID_5'' 20 ''m'') True]
   \<and> fst (changed tagPattern decimalNumber metric ''blue'' ''Camp.md''
           (Some ''note'') (Frontmatter (Some [entry ''5 m''])) twoDeclared) = []
   \<and> length (filter (\<lambda>overlay. ov_id overlay = ''note'')
        (lm_overlays (snd (changed tagPattern decimalNumber metric ''blue'' ''Camp.md''
           (Some ''note'') (Frontmatter (Some [entry ''wide'', entry ''5 m''])) twoDeclared)))) = 1
   \<and> fst (changed tagPattern decimalNumber metric ''blue'' ''Camp.md''
           (Some ''note'') (Frontmatter (Some [entry ''wide'', entry ''5 m''])) twoDeclared) =
       [lengthNotice ''Camp.md'']"
proof -
  have h: "lm_mapLayers twoDeclared = ''real'' # []"
    by (simp add: twoDeclared_layers)
  have parses: "entryRadius tagPattern decimalNumber (entryLength (entry ''5 m'')) = Some (5, ''m'')"
    by (simp add: entryRadius_def entryLength_def entry_def tagPattern_def isDigit_def
        decimalNumber_def digitsValue_def)
  have fails: "entryRadius tagPattern decimalNumber (entryLength (entry ''wide'')) = None"
    by (simp add: entryRadius_def entryLength_def entry_def tagPattern_def isDigit_def)
  have others: "filter (\<lambda>overlay. ov_id overlay \<noteq> ''note'') (lm_overlays twoDeclared) =
      [leafletOverlay (circleData ''ID_5'' 20 ''m'') True]"
    by (simp add: twoDeclared_def noteCircle_def leafletOverlay_def circleData_def)
  from changed_replaces_overlays [OF h, of tagPattern decimalNumber metric "''blue''" "''Camp.md''"
      "''note''" "[entry ''5 m'']"]
    changed_replaces_overlays [OF h, of tagPattern decimalNumber metric "''blue''" "''Camp.md''"
      "''note''" "[entry ''wide'', entry ''5 m'']"]
    h twoDeclared_tagged first_notification
  show ?thesis
    by (simp add: parses fails others)
qed

end
